theory Spec2Isabelle
  imports Main "HOL-Library.Word" "HOL-Library.List_Lexorder" "HOL-Library.Char_ord"
begin

unbundle bit_operations_syntax

section \<open>Values shared by the whole package\<close>

text \<open>
  A Go \<^verbatim>\<open>string\<close> is an immutable sequence of bytes; it is modelled as \<open>string\<close>
  (a list of 8-bit characters). A Go \<^verbatim>\<open>[]byte\<close> is a \<open>byte list\<close>; the conversion
  \<^verbatim>\<open>[]byte(s)\<close> is \<open>bytes_of_string\<close>. Go's \<^verbatim>\<open>int\<close>, \<^verbatim>\<open>int64\<close> and the
  \<^verbatim>\<open>Time\<close> and \<^verbatim>\<open>Version\<close> types built on them are modelled as \<open>int\<close>: the
  functions below only compare and print them, so no arithmetic can overflow.
\<close>

type_synonym byte = "8 word"
type_synonym u32 = "32 word"

definition bytes_of_string :: "string \<Rightarrow> byte list" where
  "bytes_of_string s = map (\<lambda>c. of_nat (of_char c)) s"

text \<open>
  Errors are values. \<open>ErrBreak\<close> is the package's \<^verbatim>\<open>ErrBreak\<close>, \<open>EOF\<close> is
  \<^verbatim>\<open>io.EOF\<close>, \<open>Errorf fmt args\<close> is \<^verbatim>\<open>fmt.Errorf(fmt, args...)\<close> with the format
  string kept verbatim, \<open>SyntaxError\<close> and \<open>MarshalerError\<close> are the errors of
  \<^verbatim>\<open>encoding/json\<close>.
\<close>

datatype error = ErrBreak | EOF | Errorf string "string list" | SyntaxError string
  | MarshalerError string error

definition swallow_break :: "error \<Rightarrow> error option" where
  "swallow_break err = (if err = ErrBreak then None else Some err)"

section \<open>Standard library functions the package calls\<close>

subsection \<open>encoding/hex and the \<^verbatim>\<open>%x\<close> verb on byte slices\<close>

definition hextable :: string where
  "hextable = ''0123456789abcdef''"

fun hex_EncodeToString :: "byte list \<Rightarrow> string" where
  "hex_EncodeToString [] = []"
| "hex_EncodeToString (v # src) =
     hextable ! unat (drop_bit 4 v) # hextable ! unat (v AND 0x0f) # hex_EncodeToString src"

subsection \<open>strconv.Itoa and strconv.FormatInt in base 10\<close>

function decimal :: "int \<Rightarrow> string" where
  "decimal n =
     (if n < 10 then [char_of (48 + n)]
      else decimal (n div 10) @ [char_of (48 + n mod 10)])"
  by pat_completeness auto
termination
  by (relation "measure nat") auto

definition Itoa :: "int \<Rightarrow> string" where
  "Itoa i = (if i < 0 then CHR ''-'' # decimal (- i) else decimal i)"

definition FormatInt :: "int \<Rightarrow> string" where
  "FormatInt i = Itoa i"

subsection \<open>The conversion \<^verbatim>\<open>[]rune(s)\<close> and unicode/utf16.Encode\<close>

text \<open>
  \<^verbatim>\<open>[]rune(s)\<close> decodes UTF-8; every byte that does not start a well-formed encoding
  becomes the replacement character U+FFFD (65533) and decoding resumes at the next byte.
  \<open>utf8_multi b0 bs\<close> decodes a multi-byte encoding whose first byte is \<open>b0\<close> and
  returns the code point and the number of continuation bytes.
\<close>

definition utf8_cont :: "nat \<Rightarrow> bool" where
  "utf8_cont b = (128 \<le> b \<and> b \<le> 191)"

definition utf8_multi :: "nat \<Rightarrow> nat list \<Rightarrow> (nat \<times> nat) option" where
  "utf8_multi b0 bs =
     (case (if 194 \<le> b0 \<and> b0 \<le> 223 then Some (1, 128, 191)
            else if b0 = 224 then Some (2, 160, 191)
            else if b0 = 237 then Some (2, 128, 159)
            else if 225 \<le> b0 \<and> b0 \<le> 239 then Some (2, 128, 191)
            else if b0 = 240 then Some (3, 144, 191)
            else if 241 \<le> b0 \<and> b0 \<le> 243 then Some (3, 128, 191)
            else if b0 = 244 then Some (3, 128, 143)
            else None) of
        None \<Rightarrow> None
      | Some (n, lo, hi) \<Rightarrow>
          if length bs < n then None
          else if \<not> (lo \<le> bs ! 0 \<and> bs ! 0 \<le> hi) then None
          else if \<not> list_all utf8_cont (take n bs) then None
          else Some (foldl (\<lambda>r b. r * 64 + b mod 64)
                       (b0 mod (if n = 1 then 32 else if n = 2 then 16 else 8)) (take n bs), n))"

fun runes_of_string :: "nat list \<Rightarrow> nat list" where
  "runes_of_string [] = []"
| "runes_of_string (b0 # bs) =
     (if b0 < 128 then b0 # runes_of_string bs
      else case utf8_multi b0 bs of
             None \<Rightarrow> 65533 # runes_of_string bs
           | Some (r, n) \<Rightarrow> r # runes_of_string (drop n bs))"

fun utf16_Encode :: "nat list \<Rightarrow> 16 word list" where
  "utf16_Encode [] = []"
| "utf16_Encode (v # s) =
     (if v < 55296 \<or> (57344 \<le> v \<and> v < 65536) then of_nat v # utf16_Encode s
      else if 65536 \<le> v \<and> v \<le> 1114111
        then of_nat (55296 + ((v - 65536) div 1024) mod 1024)
               # of_nat (56320 + (v - 65536) mod 1024) # utf16_Encode s
      else 65533 # utf16_Encode s)"

subsection \<open>crypto/md5\<close>

text \<open>
  The MD5 function of RFC 1321 on a whole message. A \<^verbatim>\<open>hash.Hash\<close> obtained from
  \<^verbatim>\<open>md5.New()\<close> is modelled by the bytes written to it so far: \<^verbatim>\<open>Write\<close> appends
  and \<^verbatim>\<open>Sum(nil)\<close> is \<open>md5_Sum\<close> of everything written.
\<close>

definition md5_K :: "u32 list" where
  "md5_K = [
    0xd76aa478, 0xe8c7b756, 0x242070db, 0xc1bdceee,
    0xf57c0faf, 0x4787c62a, 0xa8304613, 0xfd469501,
    0x698098d8, 0x8b44f7af, 0xffff5bb1, 0x895cd7be,
    0x6b901122, 0xfd987193, 0xa679438e, 0x49b40821,
    0xf61e2562, 0xc040b340, 0x265e5a51, 0xe9b6c7aa,
    0xd62f105d, 0x02441453, 0xd8a1e681, 0xe7d3fbc8,
    0x21e1cde6, 0xc33707d6, 0xf4d50d87, 0x455a14ed,
    0xa9e3e905, 0xfcefa3f8, 0x676f02d9, 0x8d2a4c8a,
    0xfffa3942, 0x8771f681, 0x6d9d6122, 0xfde5380c,
    0xa4beea44, 0x4bdecfa9, 0xf6bb4b60, 0xbebfbc70,
    0x289b7ec6, 0xeaa127fa, 0xd4ef3085, 0x04881d05,
    0xd9d4d039, 0xe6db99e5, 0x1fa27cf8, 0xc4ac5665,
    0xf4292244, 0x432aff97, 0xab9423a7, 0xfc93a039,
    0x655b59c3, 0x8f0ccc92, 0xffeff47d, 0x85845dd1,
    0x6fa87e4f, 0xfe2ce6e0, 0xa3014314, 0x4e0811a1,
    0xf7537e82, 0xbd3af235, 0x2ad7d2bb, 0xeb86d391]"

definition md5_s :: "nat list" where
  "md5_s = [7, 12, 17, 22, 7, 12, 17, 22, 7, 12, 17, 22, 7, 12, 17, 22,
            5, 9, 14, 20, 5, 9, 14, 20, 5, 9, 14, 20, 5, 9, 14, 20,
            4, 11, 16, 23, 4, 11, 16, 23, 4, 11, 16, 23, 4, 11, 16, 23,
            6, 10, 15, 21, 6, 10, 15, 21, 6, 10, 15, 21, 6, 10, 15, 21]"

definition rotl32 :: "nat \<Rightarrow> u32 \<Rightarrow> u32" where
  "rotl32 n x = push_bit n x OR drop_bit (32 - n) x"

definition md5_step :: "u32 list \<Rightarrow> nat \<Rightarrow> u32 \<times> u32 \<times> u32 \<times> u32 \<Rightarrow> u32 \<times> u32 \<times> u32 \<times> u32" where
  "md5_step m i st = (case st of (a, b, c, d) \<Rightarrow>
     (let (f, g) =
            (if i < 16 then ((b AND c) OR (NOT b AND d), i)
             else if i < 32 then ((d AND b) OR (NOT d AND c), (5 * i + 1) mod 16)
             else if i < 48 then (b XOR c XOR d, (3 * i + 5) mod 16)
             else (c XOR (b OR NOT d), (7 * i) mod 16))
      in (d, b + rotl32 (md5_s ! i) (f + a + md5_K ! i + m ! g), b, c)))"

fun le32 :: "byte list \<Rightarrow> u32 list" where
  "le32 (b0 # b1 # b2 # b3 # bs) =
     (ucast b0 OR push_bit 8 (ucast b1) OR push_bit 16 (ucast b2) OR push_bit 24 (ucast b3)) # le32 bs"
| "le32 _ = []"

definition md5_block :: "u32 \<times> u32 \<times> u32 \<times> u32 \<Rightarrow> byte list \<Rightarrow> u32 \<times> u32 \<times> u32 \<times> u32" where
  "md5_block st blk = (case st of (a0, b0, c0, d0) \<Rightarrow>
     (case fold (md5_step (le32 blk)) [0..<64] st of (a, b, c, d) \<Rightarrow>
        (a0 + a, b0 + b, c0 + c, d0 + d)))"

fun md5_blocks :: "nat \<Rightarrow> u32 \<times> u32 \<times> u32 \<times> u32 \<Rightarrow> byte list \<Rightarrow> u32 \<times> u32 \<times> u32 \<times> u32" where
  "md5_blocks 0 st bs = st"
| "md5_blocks (Suc n) st bs = md5_blocks n (md5_block st (take 64 bs)) (drop 64 bs)"

definition le_bytes :: "nat \<Rightarrow> 'a::len word \<Rightarrow> byte list" where
  "le_bytes k w = map (\<lambda>i. ucast (drop_bit (8 * i) w)) [0..<k]"

definition md5_pad :: "byte list \<Rightarrow> byte list" where
  "md5_pad msg = msg @ [0x80] @ replicate ((119 - length msg mod 64) mod 64) 0
                   @ le_bytes 8 (word_of_nat (8 * length msg) :: 64 word)"

definition md5_Sum :: "byte list \<Rightarrow> byte list" where
  "md5_Sum msg = (let p = md5_pad msg in
     case md5_blocks (length p div 64) (0x67452301, 0xefcdab89, 0x98badcfe, 0x10325476) p of
       (a, b, c, d) \<Rightarrow> concat (map (le_bytes 4) [a, b, c, d]))"

subsection \<open>encoding/base64, standard alphabet with padding\<close>

definition base64_table :: string where
  "base64_table = ''ABCDEFGHIJKLMNOPQRSTUVWXYZabcdefghijklmnopqrstuvwxyz0123456789+/''"

fun base64_EncodeToString :: "byte list \<Rightarrow> string" where
  "base64_EncodeToString (a # b # c # src) =
     (let v = unat a * 65536 + unat b * 256 + unat c
      in base64_table ! (v div 262144) # base64_table ! (v div 4096 mod 64)
           # base64_table ! (v div 64 mod 64) # base64_table ! (v mod 64)
           # base64_EncodeToString src)"
| "base64_EncodeToString [a, b] =
     (let v = unat a * 65536 + unat b * 256
      in [base64_table ! (v div 262144), base64_table ! (v div 4096 mod 64),
          base64_table ! (v div 64 mod 64), CHR ''='' ])"
| "base64_EncodeToString [a] =
     (let v = unat a * 65536
      in [base64_table ! (v div 262144), base64_table ! (v div 4096 mod 64),
          CHR ''='', CHR ''='' ])"
| "base64_EncodeToString [] = []"

subsection \<open>bytes.Contains\<close>

fun has_prefix :: "string \<Rightarrow> string \<Rightarrow> bool" where
  "has_prefix b [] = True"
| "has_prefix [] (y # ys) = False"
| "has_prefix (x # xs) (y # ys) = (x = y \<and> has_prefix xs ys)"

fun bytes_Contains :: "string \<Rightarrow> string \<Rightarrow> bool" where
  "bytes_Contains [] subslice = (subslice = [])"
| "bytes_Contains (x # xs) subslice =
     (has_prefix (x # xs) subslice \<or> bytes_Contains xs subslice)"

section \<open>Binary encodings\<close>

subsection \<open>GUID\<close>

text \<open>The hex-nibble lookup table \<^verbatim>\<open>xv\<close>: value 0 to 15, or 255 for a byte that is no hex digit.\<close>

definition xv :: "byte list" where
  "xv = [
    255, 255, 255, 255, 255, 255, 255, 255, 255, 255, 255, 255, 255, 255, 255, 255,
    255, 255, 255, 255, 255, 255, 255, 255, 255, 255, 255, 255, 255, 255, 255, 255,
    255, 255, 255, 255, 255, 255, 255, 255, 255, 255, 255, 255, 255, 255, 255, 255,
    0, 1, 2, 3, 4, 5, 6, 7, 8, 9, 255, 255, 255, 255, 255, 255,
    255, 10, 11, 12, 13, 14, 15, 255, 255, 255, 255, 255, 255, 255, 255, 255,
    255, 255, 255, 255, 255, 255, 255, 255, 255, 255, 255, 255, 255, 255, 255, 255,
    255, 10, 11, 12, 13, 14, 15, 255, 255, 255, 255, 255, 255, 255, 255, 255,
    255, 255, 255, 255, 255, 255, 255, 255, 255, 255, 255, 255, 255, 255, 255, 255,
    255, 255, 255, 255, 255, 255, 255, 255, 255, 255, 255, 255, 255, 255, 255, 255,
    255, 255, 255, 255, 255, 255, 255, 255, 255, 255, 255, 255, 255, 255, 255, 255,
    255, 255, 255, 255, 255, 255, 255, 255, 255, 255, 255, 255, 255, 255, 255, 255,
    255, 255, 255, 255, 255, 255, 255, 255, 255, 255, 255, 255, 255, 255, 255, 255,
    255, 255, 255, 255, 255, 255, 255, 255, 255, 255, 255, 255, 255, 255, 255, 255,
    255, 255, 255, 255, 255, 255, 255, 255, 255, 255, 255, 255, 255, 255, 255, 255,
    255, 255, 255, 255, 255, 255, 255, 255, 255, 255, 255, 255, 255, 255, 255, 255,
    255, 255, 255, 255, 255, 255, 255, 255, 255, 255, 255, 255, 255, 255, 255, 255]"

definition xtob :: "char \<Rightarrow> char \<Rightarrow> byte \<times> bool" where
  "xtob x1 x2 =
     (let b1 = xv ! of_char x1;
          b2 = xv ! of_char x2
      in (push_bit 4 b1 OR b2, b1 \<noteq> 255 \<and> b2 \<noteq> 255))"

definition guid_offsets :: "nat list" where
  "guid_offsets = [0, 2, 4, 6, 9, 11, 14, 16, 19, 21, 24, 26, 28, 30, 32, 34]"

text \<open>
  \<^verbatim>\<open>GUID.Bytes\<close> returns the array and the error together, as the Go function does: on
  a failure the array holds what had been decoded so far. \<open>Bytes_loop\<close> is its
  \<^verbatim>\<open>for i, x := range [16]int{...}\<close> loop.
\<close>

fun Bytes_loop :: "string \<Rightarrow> nat \<Rightarrow> nat list \<Rightarrow> byte list \<Rightarrow> byte list \<times> error option" where
  "Bytes_loop s i [] u = (u, None)"
| "Bytes_loop s i (x # xs) u =
     (case xtob (s ! x) (s ! (x + 1)) of
        (v, ok) \<Rightarrow>
          if \<not> ok then (u, Some (Errorf ''invalid guid hex char'' []))
          else Bytes_loop s (i + 1) xs (u[i := v]))"

definition GUID_Bytes :: "string \<Rightarrow> byte list \<times> error option" where
  "GUID_Bytes s =
     (let u = replicate 16 0 in
      if length s \<noteq> 36 \<or> s ! 8 \<noteq> CHR ''-'' \<or> s ! 13 \<noteq> CHR ''-''
           \<or> s ! 18 \<noteq> CHR ''-'' \<or> s ! 23 \<noteq> CHR ''-''
      then (u, Some (Errorf ''invalid guid format'' []))
      else Bytes_loop s 0 guid_offsets u)"

text \<open>\<^verbatim>\<open>fmt.Sprintf("%x-%x-%x-%x-%x", u[0:4], u[4:6], u[6:8], u[8:10], u[10:])\<close>\<close>

definition Sprintf_guid :: "byte list \<Rightarrow> string" where
  "Sprintf_guid u =
     hex_EncodeToString (take 4 u) @ ''-'' @ hex_EncodeToString (take 2 (drop 4 u)) @ ''-''
       @ hex_EncodeToString (take 2 (drop 6 u)) @ ''-'' @ hex_EncodeToString (take 2 (drop 8 u))
       @ ''-'' @ hex_EncodeToString (drop 10 u)"

definition GUID_Canonical :: "string \<Rightarrow> string \<times> error option" where
  "GUID_Canonical s = (case GUID_Bytes s of (u, err) \<Rightarrow> (Sprintf_guid u, err))"

definition GUID_String :: "string \<Rightarrow> string" where
  "GUID_String s = fst (GUID_Canonical s)"

definition GUID_Valid :: "string \<Rightarrow> error option" where
  "GUID_Valid s = snd (GUID_Bytes s)"

text \<open>
  Names for the conditions \<^verbatim>\<open>GUID.Bytes\<close> tests: the layout check of its first
  \<^verbatim>\<open>if\<close>, the \<^verbatim>\<open>ok\<close> result of \<^verbatim>\<open>xtob\<close> for the pair at an offset, the bytes
  decoded from a list of offsets, and the array left behind when the loop stops at the
  first pair that is not hexadecimal.
\<close>

definition canonical_layout :: "string \<Rightarrow> bool" where
  "canonical_layout g = (length g = 36 \<and> g ! 8 = CHR ''-'' \<and> g ! 13 = CHR ''-''
      \<and> g ! 18 = CHR ''-'' \<and> g ! 23 = CHR ''-'')"

definition pair_ok :: "string \<Rightarrow> nat \<Rightarrow> bool" where
  "pair_ok s x = snd (xtob (s ! x) (s ! (x + 1)))"

definition decode_pairs :: "string \<Rightarrow> nat list \<Rightarrow> byte list" where
  "decode_pairs s xs = map (\<lambda>x. fst (xtob (s ! x) (s ! (x + 1)))) xs"

definition partial_bytes :: "string \<Rightarrow> byte list" where
  "partial_bytes s = decode_pairs s (takeWhile (pair_ok s) guid_offsets)
        @ replicate (16 - length (takeWhile (pair_ok s) guid_offsets)) 0"

subsection \<open>Version, NodeType, Source\<close>

definition Version_Valid :: "int \<Rightarrow> error option" where
  "Version_Valid v =
     (if v \<noteq> 1 then Some (Errorf ''unsupported bookmarks version %d'' [Itoa v]) else None)"

definition NodeTypeURL :: string where
  "NodeTypeURL = ''url''"

definition NodeTypeFolder :: string where
  "NodeTypeFolder = ''folder''"

definition NodeType_Valid :: "string \<Rightarrow> error option" where
  "NodeType_Valid t =
     (if t = NodeTypeURL \<or> t = NodeTypeFolder then None
      else Some (Errorf ''unrecognized node type %q'' [t]))"

definition SourceUserAdd :: string where
  "SourceUserAdd = ''user_add''"

definition SourceImportFre :: string where
  "SourceImportFre = ''import_fre''"

definition SourceUnknown :: string where
  "SourceUnknown = ''unknown''"

definition Source_Valid :: "string \<Rightarrow> error option" where
  "Source_Valid s =
     (if s = SourceUserAdd \<or> s = SourceImportFre \<or> s = SourceUnknown then None
      else Some (Errorf ''unrecognized source %q'' [s]))"

subsection \<open>Time\<close>

definition Time_IsZero :: "int \<Rightarrow> bool" where
  "Time_IsZero t = (t = 0)"

subsection \<open>u16string\<close>

fun u16_bytes :: "16 word list \<Rightarrow> byte list" where
  "u16_bytes [] = []"
| "u16_bytes (r # codes) = ucast r # ucast (drop_bit 8 r) # u16_bytes codes"

definition u16string :: "string \<Rightarrow> byte list" where
  "u16string s = u16_bytes (utf16_Encode (runes_of_string (map of_char s)))"

section \<open>The bookmark tree\<close>

text \<open>
  \<^verbatim>\<open>Children *[]BookmarkNode\<close> is \<open>None\<close> for the nil pointer and \<open>Some cs\<close>
  for a pointer to the slice \<open>cs\<close>. A \<^verbatim>\<open>map[string]string\<close> is \<open>None\<close> when nil
  and otherwise an association list with distinct keys. \<^verbatim>\<open>Bytes\<close> is \<open>None\<close> when nil.
\<close>

datatype BookmarkNode = BookmarkNode
  (Children: "BookmarkNode list option")
  (DateAdded: int)
  (DateLastUsed: int)
  (DateModified: int)
  (GUID: string)
  (ID: int)
  (Name: string)
  (ShowIcon: bool)
  (Source: string)
  (Type: string)
  (URL: string)
  (MetaInfo: "(string \<times> string) list option")
  (UnsyncedMetaInfo: "(string \<times> string) list option")

record BookmarkRoots =
  BookmarkBar :: BookmarkNode
  Other :: BookmarkNode
  MobileBookmark :: BookmarkNode

record Bookmarks =
  Checksum :: string
  Roots :: BookmarkRoots
  SyncMetadata :: "byte list option"
  Version :: int
  DocMetaInfo :: "(string \<times> string) list option"
  DocUnsyncedMetaInfo :: "(string \<times> string) list option"

subsection \<open>Walk\<close>

text \<open>
  A \<^verbatim>\<open>WalkFunc\<close> is a closure: it may update the variables it captured and it returns
  an error or nil. The captured variables are the state \<open>'s\<close>, passed in and returned.
  A nil \<^verbatim>\<open>WalkFunc\<close> is \<open>None\<close>.
\<close>

type_synonym 's WalkFunc = "'s \<Rightarrow> BookmarkNode \<Rightarrow> string list \<Rightarrow> error option \<times> 's"

fun walk :: "'s WalkFunc \<Rightarrow> BookmarkNode \<Rightarrow> string list \<Rightarrow> 's \<Rightarrow> error option \<times> 's"
  and walk_children :: "'s WalkFunc \<Rightarrow> BookmarkNode list \<Rightarrow> string list \<Rightarrow> 's \<Rightarrow> error option \<times> 's"
where
  "walk fn (BookmarkNode ch da du dm g i nm si so ty ur mi um) parents s =
     (case fn s (BookmarkNode ch da du dm g i nm si so ty ur mi um) parents of
        (Some err, s') \<Rightarrow> (Some err, s')
      | (None, s') \<Rightarrow>
          (if ty = NodeTypeFolder
           then (case ch of None \<Rightarrow> (None, s') | Some cs \<Rightarrow> walk_children fn cs parents s')
           else (None, s')))"
| "walk_children fn [] parents s = (None, s)"
| "walk_children fn (c # cs) parents s =
     (case walk fn c (parents @ [Name c]) s of
        (Some err, s') \<Rightarrow> (Some err, s')
      | (None, s') \<Rightarrow> walk_children fn cs parents s')"

definition Walk :: "'s WalkFunc option \<Rightarrow> Bookmarks \<Rightarrow> 's \<Rightarrow> error option \<times> 's" where
  "Walk fn b s =
     (case fn of
        None \<Rightarrow> (None, s)
      | Some f \<Rightarrow>
          (case walk f (BookmarkBar (Roots b)) [] s of
             (Some err, s1) \<Rightarrow> (swallow_break err, s1)
           | (None, s1) \<Rightarrow>
               (case walk f (Other (Roots b)) [] s1 of
                  (Some err, s2) \<Rightarrow> (swallow_break err, s2)
                | (None, s2) \<Rightarrow>
                    (case walk f (MobileBookmark (Roots b)) [] s2 of
                       (Some err, s3) \<Rightarrow> (swallow_break err, s3)
                     | (None, s3) \<Rightarrow> (None, s3)))))"

definition Node_Walk :: "'s WalkFunc option \<Rightarrow> BookmarkNode \<Rightarrow> 's \<Rightarrow> error option \<times> 's" where
  "Node_Walk fn n s =
     (case fn of
        None \<Rightarrow> (None, s)
      | Some f \<Rightarrow>
          (case walk f n [] s of
             (Some err, s1) \<Rightarrow> (swallow_break err, s1)
           | (None, s1) \<Rightarrow> (None, s1)))"

text \<open>
  The sequence of calls \<open>walk\<close> makes when the visitor never returns an error: each
  node with the \<open>parents\<close> argument it is visited with.
\<close>

fun walk_trace :: "BookmarkNode \<Rightarrow> string list \<Rightarrow> (BookmarkNode \<times> string list) list"
  and walk_trace_children :: "BookmarkNode list \<Rightarrow> string list \<Rightarrow> (BookmarkNode \<times> string list) list"
where
  "walk_trace (BookmarkNode ch da du dm g i nm si so ty ur mi um) parents =
     (BookmarkNode ch da du dm g i nm si so ty ur mi um, parents) #
     (if ty = NodeTypeFolder
      then (case ch of None \<Rightarrow> [] | Some cs \<Rightarrow> walk_trace_children cs parents)
      else [])"
| "walk_trace_children [] parents = []"
| "walk_trace_children (c # cs) parents =
     walk_trace c (parents @ [Name c]) @ walk_trace_children cs parents"

definition Walk_trace :: "Bookmarks \<Rightarrow> (BookmarkNode \<times> string list) list" where
  "Walk_trace b = walk_trace (BookmarkBar (Roots b)) [] @ walk_trace (Other (Roots b)) []
     @ walk_trace (MobileBookmark (Roots b)) []"


text \<open>Running a visitor over a sequence of calls, stopping at its first error.\<close>

fun visit_until :: "'s WalkFunc \<Rightarrow> (BookmarkNode \<times> string list) list \<Rightarrow> 's \<Rightarrow> error option \<times> 's" where
  "visit_until fn [] s = (None, s)"
| "visit_until fn ((n, parents) # tr) s =
     (case fn s n parents of
        (Some err, s') \<Rightarrow> (Some err, s')
      | (None, s') \<Rightarrow> visit_until fn tr s')"

text \<open>A visitor that records every call it receives and never fails.\<close>

definition record_visit :: "(BookmarkNode \<times> string list) list WalkFunc" where
  "record_visit s n parents = (None, s @ [(n, parents)])"

subsection \<open>CalculateChecksum\<close>

text \<open>
  The closure passed to \<^verbatim>\<open>b.Walk\<close>; its state is the hash \<^verbatim>\<open>h\<close>, that is the
  bytes written to it.
\<close>

definition checksum_visit :: "byte list WalkFunc" where
  "checksum_visit h n parents =
     (if Type n = ''url''
      then (None, h @ bytes_of_string (Itoa (ID n)) @ u16string (Name n)
                    @ bytes_of_string (Type n) @ bytes_of_string (URL n))
      else if Type n = ''folder''
      then (None, h @ bytes_of_string (Itoa (ID n)) @ u16string (Name n)
                    @ bytes_of_string (Type n))
      else (None, h))"

definition CalculateChecksum :: "Bookmarks \<Rightarrow> string" where
  "CalculateChecksum b = hex_EncodeToString (md5_Sum (snd (Walk (Some checksum_visit) b [])))"

section \<open>JSON encoding\<close>

text \<open>
  A JSON text is represented by the value it spells. The bytes returned by a
  \<^verbatim>\<open>MarshalJSON\<close> method are \<open>Some j\<close> when they spell the value \<open>j\<close> and
  \<open>None\<close> when the method returns no bytes at all (\<^verbatim>\<open>nil\<close>), which spells no
  value. Strings are kept as the Go strings they encode.
\<close>

datatype json = JNull | JBool bool | JNumber int | JString string
  | JArray "json list" | JObject "(string \<times> json) list"

subsection \<open>The MarshalJSON methods of the package\<close>

definition Version_MarshalJSON :: "int \<Rightarrow> error + json option" where
  "Version_MarshalJSON v =
     (case Version_Valid v of Some err \<Rightarrow> Inl err | None \<Rightarrow> Inr (Some (JNumber v)))"

definition NodeType_MarshalJSON :: "string \<Rightarrow> error + json option" where
  "NodeType_MarshalJSON t =
     (case NodeType_Valid t of Some err \<Rightarrow> Inl err | None \<Rightarrow> Inr (Some (JString t)))"

definition Source_MarshalJSON :: "string \<Rightarrow> error + json option" where
  "Source_MarshalJSON s =
     (case Source_Valid s of Some err \<Rightarrow> Inl err | None \<Rightarrow> Inr (Some (JString s)))"

definition Bytes_MarshalJSON :: "byte list option \<Rightarrow> error + json option" where
  "Bytes_MarshalJSON c =
     (case c of
        None \<Rightarrow> Inr (Some JNull)
      | Some bs \<Rightarrow> if length bs = 0 then Inr (Some (JString []))
                  else Inr (Some (JString (base64_EncodeToString bs))))"

definition Time_MarshalJSON :: "int \<Rightarrow> error + json option" where
  "Time_MarshalJSON t =
     (if Time_IsZero t then Inr None else Inr (Some (JString (FormatInt t))))"

definition GUID_MarshalJSON :: "string \<Rightarrow> error + json option" where
  "GUID_MarshalJSON s =
     (case GUID_Valid s of Some err \<Rightarrow> Inl err | None \<Rightarrow> Inr (Some (JString s)))"

subsection \<open>What encoding/json does with the struct types of the package\<close>

text \<open>
  The encoder calls \<^verbatim>\<open>MarshalJSON\<close> for a value whose type has one and checks that the
  bytes returned are one JSON value: an error of the method, or bytes that are not a JSON
  value, abort the encoding with a \<^verbatim>\<open>MarshalerError\<close>. No bytes at all are not a
  JSON value (\<^verbatim>\<open>unexpected end of JSON input\<close>).
\<close>

definition marshalerEncoder :: "string \<Rightarrow> error + json option \<Rightarrow> error + json" where
  "marshalerEncoder ty m =
     (case m of
        Inl err \<Rightarrow> Inl (MarshalerError ty err)
      | Inr None \<Rightarrow> Inl (MarshalerError ty (SyntaxError ''unexpected end of JSON input''))
      | Inr (Some j) \<Rightarrow> Inr j)"

text \<open>
  A struct is encoded field by field in declaration order; the first error aborts.
  Each field yields the list of members it adds to the object: none when
  \<^verbatim>\<open>omitempty\<close> drops it (the test is on the Go value: false, 0, a nil pointer, an
  empty string, slice or map, and it is made before \<^verbatim>\<open>MarshalJSON\<close> is called).
\<close>

fun collect :: "(error + 'a list) list \<Rightarrow> error + 'a list" where
  "collect [] = Inr []"
| "collect (Inl err # fs) = Inl err"
| "collect (Inr xs # fs) = (case collect fs of Inl err \<Rightarrow> Inl err | Inr ys \<Rightarrow> Inr (xs @ ys))"

definition field :: "string \<Rightarrow> error + json \<Rightarrow> error + (string \<times> json) list" where
  "field name v = (case v of Inl err \<Rightarrow> Inl err | Inr j \<Rightarrow> Inr [(name, j)])"

definition omitempty :: "bool \<Rightarrow> error + (string \<times> json) list \<Rightarrow> error + (string \<times> json) list" where
  "omitempty isEmpty f = (if isEmpty then Inr [] else f)"

definition structEncoder :: "(error + (string \<times> json) list) list \<Rightarrow> error + json" where
  "structEncoder fs = (case collect fs of Inl err \<Rightarrow> Inl err | Inr kvs \<Rightarrow> Inr (JObject kvs))"

definition arrayEncoder :: "(error + json) list \<Rightarrow> error + json" where
  "arrayEncoder vs =
     (case collect (map (\<lambda>v. case v of Inl err \<Rightarrow> Inl err | Inr j \<Rightarrow> Inr [j]) vs) of
        Inl err \<Rightarrow> Inl err
      | Inr js \<Rightarrow> Inr (JArray js))"

definition mapEncoder :: "(string \<times> string) list \<Rightarrow> error + json" where
  "mapEncoder kvs = Inr (JObject (map (\<lambda>(k, v). (k, JString v)) (sort_key fst kvs)))"

definition map_field :: "string \<Rightarrow> (string \<times> string) list option \<Rightarrow> error + (string \<times> json) list" where
  "map_field name m =
     (case m of
        None \<Rightarrow> Inr []
      | Some kvs \<Rightarrow> omitempty (length kvs = 0) (field name (mapEncoder kvs)))"

text \<open>The struct tags of \<^verbatim>\<open>BookmarkNode\<close> and \<^verbatim>\<open>Bookmarks\<close>, field by field.\<close>

fun encode_BookmarkNode :: "BookmarkNode \<Rightarrow> error + json" where
  "encode_BookmarkNode (BookmarkNode ch da du dm g i nm si so ty ur mi um) =
     structEncoder [
       (case ch of
          None \<Rightarrow> Inr []
        | Some cs \<Rightarrow> field ''children'' (arrayEncoder (map encode_BookmarkNode cs))),
       field ''date_added'' (marshalerEncoder ''crb.Time'' (Time_MarshalJSON da)),
       omitempty (du = 0)
         (field ''date_last_used'' (marshalerEncoder ''crb.Time'' (Time_MarshalJSON du))),
       omitempty (dm = 0)
         (field ''date_modified'' (marshalerEncoder ''crb.Time'' (Time_MarshalJSON dm))),
       field ''guid'' (marshalerEncoder ''crb.GUID'' (GUID_MarshalJSON g)),
       field ''id'' (Inr (JString (Itoa i))),
       field ''name'' (Inr (JString nm)),
       omitempty (\<not> si) (field ''show_icon'' (Inr (JBool si))),
       omitempty (length so = 0)
         (field ''source'' (marshalerEncoder ''crb.Source'' (Source_MarshalJSON so))),
       field ''type'' (marshalerEncoder ''crb.NodeType'' (NodeType_MarshalJSON ty)),
       omitempty (length ur = 0) (field ''url'' (Inr (JString ur))),
       map_field ''meta_info'' mi,
       map_field ''unsynced_meta_info'' um]"

definition encode_Bookmarks :: "Bookmarks \<Rightarrow> error + json" where
  "encode_Bookmarks b =
     structEncoder [
       field ''checksum'' (Inr (JString (Checksum b))),
       field ''roots'' (structEncoder [
         field ''bookmark_bar'' (encode_BookmarkNode (BookmarkBar (Roots b))),
         field ''other'' (encode_BookmarkNode (Other (Roots b))),
         field ''synced'' (encode_BookmarkNode (MobileBookmark (Roots b)))]),
       omitempty (case SyncMetadata b of None \<Rightarrow> True | Some bs \<Rightarrow> length bs = 0)
         (field ''sync_metadata'' (marshalerEncoder ''crb.Bytes'' (Bytes_MarshalJSON (SyncMetadata b)))),
       field ''version'' (marshalerEncoder ''crb.Version'' (Version_MarshalJSON (Version b))),
       map_field ''meta_info'' (DocMetaInfo b),
       map_field ''unsynced_meta_info'' (DocUnsyncedMetaInfo b)]"

subsection \<open>Encode and Decode\<close>

text \<open>
  \<open>Encode\<close> takes the text layer of the encoder as a parameter: \<open>text j\<close> is what
  \<^verbatim>\<open>json.Encoder\<close> writes for the value \<open>j\<close> with indent \<^verbatim>\<open>"   "\<close> and HTML
  escaping off. \<open>Decode\<close> takes \<open>unmarshal\<close>, the result of
  \<^verbatim>\<open>json.Decoder.Decode(&b)\<close> with \<^verbatim>\<open>DisallowUnknownFields\<close> on the bytes of the
  reader. What \<open>Encode\<close> and \<open>Decode\<close> themselves do is on top of these.
\<close>

definition Encode :: "(json \<Rightarrow> string) \<Rightarrow> Bookmarks \<Rightarrow> error + string" where
  "Encode text b = (case encode_Bookmarks b of Inl err \<Rightarrow> Inl err | Inr j \<Rightarrow> Inr (text j))"

definition Decode :: "(string \<Rightarrow> error + Bookmarks) \<Rightarrow> string \<Rightarrow> error + Bookmarks \<times> bool" where
  "Decode unmarshal r =
     (case unmarshal r of
        Inl err \<Rightarrow> Inl err
      | Inr b \<Rightarrow> Inr (b, Checksum b = CalculateChecksum b))"

section \<open>Carve\<close>

text \<open>
  The source \<^verbatim>\<open>f\<close> is a finite sequence of bytes that can be read at any offset and
  never fails except by reaching its end. The buffered reader \<^verbatim>\<open>r\<close> is the bytes it
  has not delivered yet; \<^verbatim>\<open>off\<close> counts the bytes it has delivered.
\<close>

definition BufferSize :: nat where
  "BufferSize = 8192"

definition MaxSize :: nat where
  "MaxSize = 20 * 1024 * 1024"

definition s1 :: string where
  "s1 = [CHR ''{'', CHR 0x0A] @ ''   \"checksum\": \"''"

definition s2 :: string where
  "s2 = ''   \"roots\": {'' @ [CHR 0x0A] @ ''      \"bookmark_bar\": {''"

text \<open>
  The inner loop \<^verbatim>\<open>for _, x := range s1\<close>: it reads one byte per iteration and ends
  at the end of the source, at the first byte that differs (which it has consumed), or
  after the whole prefix.
\<close>

datatype scan_result = ScanEOF | ScanMismatch string nat | ScanMatch string nat

fun scan_prefix :: "string \<Rightarrow> string \<Rightarrow> nat \<Rightarrow> scan_result" where
  "scan_prefix [] r off = ScanMatch r off"
| "scan_prefix (x # xs) [] off = ScanEOF"
| "scan_prefix (x # xs) (c # r) off =
     (if c \<noteq> x then ScanMismatch r (off + 1) else scan_prefix xs r (off + 1))"

text \<open>
  The sink \<^verbatim>\<open>fn\<close> is a closure as well: the error it returns may depend on the calls
  it has received before, which is its first argument here. A nil sink is \<open>None\<close>.
  \<open>Carve\<close> returns the calls it made to the sink, in order, and its error.
\<close>

type_synonym CarveCall = "nat \<times> string \<times> Bookmarks"
type_synonym CarveMatchFunc = "CarveCall list \<Rightarrow> nat \<Rightarrow> string \<Rightarrow> Bookmarks \<Rightarrow> error option"

lemma scan_prefix_mismatch:
  "scan_prefix p r off = ScanMismatch r' off' \<Longrightarrow> length r' < length r"
  by (induction p r off rule: scan_prefix.induct) (auto split: if_splits)

lemma scan_prefix_match:
  "scan_prefix p r off = ScanMatch r' off' \<Longrightarrow> r = p @ r' \<and> off' = off + length p"
  by (induction p r off rule: scan_prefix.induct) (auto split: if_splits)

lemma s1_length: "length s1 = 18"
  by (simp add: s1_def)

lemma scan_s1_match_shorter:
  "scan_prefix s1 r off = ScanMatch r' off' \<Longrightarrow> length r' < length r"
  using scan_prefix_match [of s1 r off r' off'] s1_length by auto

text \<open>
  The outer loop. \<open>raw\<close> is \<^verbatim>\<open>json.NewDecoder(...).Decode(&jb)\<close> on the bytes of its
  reader: the bytes of the first JSON value, or an error. The section reader
  \<^verbatim>\<open>sr\<close> holds at most \<open>MaxSize\<close> bytes of \<^verbatim>\<open>f\<close> from \<^verbatim>\<open>off\<close>;
  \<^verbatim>\<open>sr.Read(sb)\<close> asks the source for 1024 bytes and a source that has fewer left
  returns them with \<^verbatim>\<open>io.EOF\<close>.
\<close>

function carve_loop ::
  "(string \<Rightarrow> error + string) \<Rightarrow> (string \<Rightarrow> error + Bookmarks) \<Rightarrow> string
     \<Rightarrow> CarveMatchFunc option \<Rightarrow> string \<Rightarrow> nat \<Rightarrow> CarveCall list
     \<Rightarrow> CarveCall list \<times> error option" where
  "carve_loop raw unmarshal f fn r off calls =
     (case scan_prefix s1 r off of
        ScanEOF \<Rightarrow> (calls, None)
      | ScanMismatch r' off' \<Rightarrow> carve_loop raw unmarshal f fn r' off' calls
      | ScanMatch r' off' \<Rightarrow>
          (let sr = take MaxSize (drop off' f);
               sb = take 1024 sr
           in if length sb < 1024 then (calls, Some EOF)
              else if \<not> bytes_Contains sb s2 then carve_loop raw unmarshal f fn r' off' calls
              else (case raw (s1 @ sr) of
                      Inl err \<Rightarrow> carve_loop raw unmarshal f fn r' off' calls
                    | Inr jb \<Rightarrow>
                        (case Decode unmarshal jb of
                           Inl err \<Rightarrow> carve_loop raw unmarshal f fn r' off' calls
                         | Inr (obj, valid) \<Rightarrow>
                             if \<not> valid then carve_loop raw unmarshal f fn r' off' calls
                             else (case fn of
                                     None \<Rightarrow> carve_loop raw unmarshal f fn r' off' calls
                                   | Some g \<Rightarrow>
                                       (case g calls (off' - length s1) jb obj of
                                          Some err \<Rightarrow>
                                            (calls @ [(off' - length s1, jb, obj)], swallow_break err)
                                        | None \<Rightarrow>
                                            carve_loop raw unmarshal f fn r' off'
                                              (calls @ [(off' - length s1, jb, obj)])))))))"
  by pat_completeness auto
termination
  by (relation "measure (\<lambda>(raw, unmarshal, f, fn, r, off, calls). length r)")
     (auto intro: scan_prefix_mismatch scan_s1_match_shorter)

definition Carve ::
  "(string \<Rightarrow> error + string) \<Rightarrow> (string \<Rightarrow> error + Bookmarks) \<Rightarrow> string
     \<Rightarrow> CarveMatchFunc option \<Rightarrow> CarveCall list \<times> error option" where
  "Carve raw unmarshal f fn = carve_loop raw unmarshal f fn f 0 []"

section \<open>The specification's own notions\<close>

text \<open>
  Definitions that follow the words of the specification, for comparison with the
  functions above. Their names start with \<open>spec_\<close>.
\<close>

subsection \<open>Canonical GUID strings\<close>

definition spec_hex_char :: "char \<Rightarrow> bool" where
  "spec_hex_char c = (c \<in> set ''0123456789abcdefABCDEF'')"

definition spec_lower :: "char \<Rightarrow> char" where
  "spec_lower c =
     (if (65::nat) \<le> of_char c \<and> of_char c \<le> (90::nat) then char_of (of_char c + (32::nat)) else c)"

definition spec_hyphen_positions :: "nat list" where
  "spec_hyphen_positions = [8, 13, 18, 23]"

definition spec_valid_guid :: "string \<Rightarrow> bool" where
  "spec_valid_guid g = (length g = 36 \<and>
     list_all (\<lambda>i. if i \<in> set spec_hyphen_positions then g ! i = CHR ''-''
                    else spec_hex_char (g ! i)) [0..<36])"

definition spec_bad_hyphen :: "string \<Rightarrow> bool" where
  "spec_bad_hyphen g = list_ex (\<lambda>i. g ! i \<noteq> CHR ''-'') spec_hyphen_positions"

definition spec_bad_hex :: "string \<Rightarrow> bool" where
  "spec_bad_hex g =
     list_ex (\<lambda>i. i \<notin> set spec_hyphen_positions \<and> \<not> spec_hex_char (g ! i)) [0..<36]"

subsection \<open>The checksum as the specification describes it\<close>







subsection \<open>The context of a visit as the specification describes it\<close>

text \<open>Every node with the names of its ancestors, outermost first.\<close>

fun spec_context_walk :: "BookmarkNode \<Rightarrow> string list \<Rightarrow> (BookmarkNode \<times> string list) list" where
  "spec_context_walk (BookmarkNode ch da du dm g i nm si so ty ur mi um) ancestors =
     (BookmarkNode ch da du dm g i nm si so ty ur mi um, ancestors) #
     (case ch of
        None \<Rightarrow> []
      | Some cs \<Rightarrow> concat (map (\<lambda>c. spec_context_walk c (ancestors @ [nm])) cs))"

section \<open>Example documents\<close>



definition example_folder :: "int \<Rightarrow> string \<Rightarrow> BookmarkNode list \<Rightarrow> BookmarkNode" where
  "example_folder i nm cs =
     BookmarkNode (Some cs) 13300000000000000 0 0 ''0bc5d13f-2cba-5d74-951f-3f233fe6c908''
       i nm False [] ''folder'' [] None None"

definition example_url :: "int \<Rightarrow> string \<Rightarrow> string \<Rightarrow> BookmarkNode" where
  "example_url i nm u =
     BookmarkNode None 13300000000000001 0 0 ''82b081ec-3dd3-529c-8475-ab6c344590dd''
       i nm False [] ''url'' u None None"

text \<open>A profile with one folder on the bookmark bar that holds one bookmark.\<close>

definition example_Bookmarks :: Bookmarks where
  "example_Bookmarks =
     \<lparr>Checksum = [],
      Roots = \<lparr>BookmarkBar = example_folder 1 ''Bookmarks bar''
                  [example_folder 4 ''News'' [example_url 5 ''Example'' ''https://example.com/'']],
               Other = example_folder 2 ''Other bookmarks'' [],
               MobileBookmark = example_folder 3 ''Mobile bookmarks'' []\<rparr>,
      SyncMetadata = None, Version = 1, DocMetaInfo = None, DocUnsyncedMetaInfo = None\<rparr>"

section \<open>Properties of GUID\<close>

subsection \<open>The lookup table and one decoded byte\<close>

lemma xv_hex_all: "\<forall>c::char. (xv ! of_char c \<noteq> 255) = spec_hex_char c"
  by code_simp

lemma xv_low_all: "\<forall>c::char. spec_hex_char c \<longrightarrow> hextable ! unat (xv ! of_char c) = spec_lower c \<and> xv ! of_char c < 16"
  by code_simp

lemma nib_all: "\<forall>a\<in>set [0..<16]. \<forall>b \<in> set [0..<16]. drop_bit 4 (push_bit 4 (of_nat a) OR (of_nat b) :: byte) = of_nat a \<and> (push_bit 4 (of_nat a) OR (of_nat b) :: byte) AND 0x0f = of_nat b"
  by code_simp

lemma Bytes_loop_char:
  "i + length xs \<le> length u \<Longrightarrow>
   Bytes_loop s i xs u =
     (take i u @ decode_pairs s (takeWhile (pair_ok s) xs)
        @ drop (i + length (takeWhile (pair_ok s) xs)) u,
      if list_all (pair_ok s) xs then None else Some (Errorf ''invalid guid hex char'' []))"
proof (induction xs arbitrary: i u)
  case Nil
  then show ?case by (simp add: decode_pairs_def)
next
  case (Cons x xs)
  show ?case
  proof (cases "pair_ok s x")
    case False
    obtain v where v: "xtob (s ! x) (s ! (x + 1)) = (v, False)"
      using False by (cases "xtob (s ! x) (s ! (x + 1))") (simp add: pair_ok_def)
    show ?thesis
      using False v by (simp add: decode_pairs_def)
  next
    case True
    obtain v where v: "xtob (s ! x) (s ! (x + 1)) = (v, True)"
      using True by (cases "xtob (s ! x) (s ! (x + 1))") (simp add: pair_ok_def)
    have len: "i < length u" "Suc i + length xs \<le> length (u[i := v])"
      using Cons.prems by simp_all
    have tk: "take (Suc i) (u[i := v]) = take i u @ [v]"
      using len(1) by (simp add: take_Suc_conv_app_nth)
    have dr: "\<And>k. drop (Suc i + k) (u[i := v]) = drop (Suc (i + k)) u"
      by simp
    show ?thesis
      using Cons.IH [OF len(2)] True v tk dr
      by (simp add: decode_pairs_def)
  qed
qed

lemma GUID_Bytes_layout:
  "canonical_layout g \<Longrightarrow>
   GUID_Bytes g =
     (decode_pairs g (takeWhile (pair_ok g) guid_offsets)
        @ replicate (16 - length (takeWhile (pair_ok g) guid_offsets)) 0,
      if list_all (pair_ok g) guid_offsets then None else Some (Errorf ''invalid guid hex char'' []))"
proof -
  assume "canonical_layout g"
  then have "GUID_Bytes g = Bytes_loop g 0 guid_offsets (replicate 16 0)"
    by (simp add: GUID_Bytes_def canonical_layout_def)
  moreover have "0 + length guid_offsets \<le> length (replicate 16 (0::byte))"
    by (simp add: guid_offsets_def)
  ultimately show ?thesis
    by (simp add: Bytes_loop_char)
qed

lemma GUID_Bytes_bad_layout:
  "\<not> canonical_layout g \<Longrightarrow> GUID_Bytes g = (replicate 16 0, Some (Errorf ''invalid guid format'' []))"
  by (auto simp add: GUID_Bytes_def canonical_layout_def)

lemma pair_ok_hex: "pair_ok g x = (spec_hex_char (g ! x) \<and> spec_hex_char (g ! Suc x))"
  using xv_hex_all by (simp add: pair_ok_def xtob_def)

lemma hex_pair:
  assumes "spec_hex_char c1" "spec_hex_char c2"
  shows "hex_EncodeToString [fst (xtob c1 c2)] = [spec_lower c1, spec_lower c2]"
proof -
  let ?a = "xv ! of_char c1" and ?b = "xv ! of_char c2"
  have a: "?a < 16" "hextable ! unat ?a = spec_lower c1" using assms(1) xv_low_all by auto
  have b: "?b < 16" "hextable ! unat ?b = spec_lower c2" using assms(2) xv_low_all by auto
  have ua: "unat ?a \<in> set [0..<16]" using a(1) by (simp add: word_less_nat_alt)
  have ub: "unat ?b \<in> set [0..<16]" using b(1) by (simp add: word_less_nat_alt)
  from nib_all ua ub have
    "drop_bit 4 (push_bit 4 (of_nat (unat ?a)) OR (of_nat (unat ?b)) :: byte) = of_nat (unat ?a) \<and>
     (push_bit 4 (of_nat (unat ?a)) OR (of_nat (unat ?b)) :: byte) AND 0x0f = of_nat (unat ?b)"
    by blast
  then have h: "drop_bit 4 (push_bit 4 ?a OR ?b) = ?a" "(push_bit 4 ?a OR ?b) AND 0x0f = ?b"
    by simp_all
  have e: "fst (xtob c1 c2) = push_bit 4 ?a OR ?b"
    by (simp add: xtob_def Let_def)
  show ?thesis
    by (simp only: e hex_EncodeToString.simps h a(2) b(2))
qed

lemma hex_EncodeToString_append:
  "hex_EncodeToString (xs @ ys) = hex_EncodeToString xs @ hex_EncodeToString ys"
  by (induction xs) simp_all

lemma hex_decode_pairs:
  "\<forall>x \<in> set xs. spec_hex_char (g ! x) \<and> spec_hex_char (g ! Suc x) \<Longrightarrow>
   hex_EncodeToString (decode_pairs g xs) = concat (map (\<lambda>x. [spec_lower (g ! x), spec_lower (g ! Suc x)]) xs)"
proof (induction xs)
  case Nil
  then show ?case by (simp add: decode_pairs_def)
next
  case (Cons x xs)
  have "hex_EncodeToString (decode_pairs g (x # xs))
      = hex_EncodeToString [fst (xtob (g ! x) (g ! Suc x))] @ hex_EncodeToString (decode_pairs g xs)"
    by (simp add: decode_pairs_def)
  then show ?case
    using Cons by (simp add: hex_pair del: hex_EncodeToString.simps)
qed


lemma GUID_Canonical_Sprintf:
  "GUID_Canonical s = (Sprintf_guid (fst (GUID_Bytes s)), snd (GUID_Bytes s))"
  by (simp add: GUID_Canonical_def Sprintf_guid_def split: prod.splits)

lemma upt36: "[0..<36] = [0,1,2,3,4,5,6,7,8,9,10,11,12,13,14,15,16,17,18,19,20,21,22,23,24,25,26,27,28,29,30,31,32,33,34,35]"
  by code_simp

lemma list36: "length g = 36 \<Longrightarrow> g = map ((!) g) [0,1,2,3,4,5,6,7,8,9,10,11,12,13,14,15,16,17,18,19,20,21,22,23,24,25,26,27,28,29,30,31,32,33,34,35]"
  using map_nth [of g] by (simp add: upt36)

lemma spec_valid_layout: "spec_valid_guid g \<Longrightarrow> canonical_layout g"
  by (simp add: spec_valid_guid_def canonical_layout_def upt36 spec_hyphen_positions_def)

lemma spec_valid_pairs: "spec_valid_guid g \<Longrightarrow> list_all (pair_ok g) guid_offsets"
  by (simp add: spec_valid_guid_def upt36 spec_hyphen_positions_def guid_offsets_def pair_ok_hex)

lemma bad_layout_iff: "(\<not> canonical_layout g) = (length g \<noteq> 36 \<or> spec_bad_hyphen g)"
  by (auto simp add: canonical_layout_def spec_bad_hyphen_def spec_hyphen_positions_def)

lemma bad_hex_pairs: "spec_bad_hex g \<Longrightarrow> \<not> list_all (pair_ok g) guid_offsets"
  by (simp add: spec_bad_hex_def upt36 spec_hyphen_positions_def guid_offsets_def pair_ok_hex)

lemma valid_roundtrip:
  assumes "spec_valid_guid g"
  shows "Sprintf_guid (decode_pairs g guid_offsets) = map spec_lower g"
proof -
  have len: "length g = 36" and hy: "g ! 8 = CHR ''-''" "g ! 13 = CHR ''-''" "g ! 18 = CHR ''-''" "g ! 23 = CHR ''-''"
    using spec_valid_layout [OF assms] by (simp_all add: canonical_layout_def)
  have hx: "list_all (pair_ok g) guid_offsets"
    using assms by (rule spec_valid_pairs)
  have tl: "spec_lower CHR ''-'' = CHR ''-''" by (simp add: spec_lower_def)
  have split: "decode_pairs g guid_offsets = decode_pairs g [0,2,4,6] @ decode_pairs g [9,11] @ decode_pairs g [14,16]
       @ decode_pairs g [19,21] @ decode_pairs g [24,26,28,30,32,34]"
    by (simp add: decode_pairs_def guid_offsets_def)
  have l: "length (decode_pairs g [0,2,4,6]) = 4" "length (decode_pairs g [9,11]) = 2"
     "length (decode_pairs g [14,16]) = 2" "length (decode_pairs g [19,21]) = 2"
    by (simp_all add: decode_pairs_def)
  have S: "Sprintf_guid (decode_pairs g guid_offsets) =
     hex_EncodeToString (decode_pairs g [0,2,4,6]) @ ''-'' @ hex_EncodeToString (decode_pairs g [9,11]) @ ''-''
     @ hex_EncodeToString (decode_pairs g [14,16]) @ ''-'' @ hex_EncodeToString (decode_pairs g [19,21]) @ ''-''
     @ hex_EncodeToString (decode_pairs g [24,26,28,30,32,34])"
    unfolding Sprintf_guid_def split using l by simp
  have R: "map spec_lower g = map spec_lower (map ((!) g) [0,1,2,3,4,5,6,7,8,9,10,11,12,13,14,15,16,17,18,19,20,21,22,23,24,25,26,27,28,29,30,31,32,33,34,35])"
    using list36 [OF len] by simp
  have hxs: "\<And>xs. set xs \<subseteq> set guid_offsets \<Longrightarrow> \<forall>x\<in>set xs. spec_hex_char (g ! x) \<and> spec_hex_char (g ! Suc x)"
    using hx by (auto simp: list_all_iff pair_ok_hex)
  have H: "hex_EncodeToString (decode_pairs g [0,2,4,6]) = concat (map (\<lambda>x. [spec_lower (g ! x), spec_lower (g ! Suc x)]) [0,2,4,6])"
     "hex_EncodeToString (decode_pairs g [9,11]) = concat (map (\<lambda>x. [spec_lower (g ! x), spec_lower (g ! Suc x)]) [9,11])"
     "hex_EncodeToString (decode_pairs g [14,16]) = concat (map (\<lambda>x. [spec_lower (g ! x), spec_lower (g ! Suc x)]) [14,16])"
     "hex_EncodeToString (decode_pairs g [19,21]) = concat (map (\<lambda>x. [spec_lower (g ! x), spec_lower (g ! Suc x)]) [19,21])"
     "hex_EncodeToString (decode_pairs g [24,26,28,30,32,34]) = concat (map (\<lambda>x. [spec_lower (g ! x), spec_lower (g ! Suc x)]) [24,26,28,30,32,34])"
    by (rule hex_decode_pairs, rule hxs, simp add: guid_offsets_def)+
  show ?thesis
    unfolding S H
    apply (subst R)
    apply (simp add: hy tl)
    done
qed

lemma Sprintf_guid_zero: "Sprintf_guid (replicate 16 0) = ''00000000-0000-0000-0000-000000000000''"
  by code_simp

lemma Bytes_loop_length: "length (fst (Bytes_loop s i xs u)) = length u"
  by (induction s i xs u rule: Bytes_loop.induct) (auto split: prod.splits)

lemma GUID_Bytes_length: "length (fst (GUID_Bytes s)) = 16"
  by (simp add: GUID_Bytes_def Let_def Bytes_loop_length)

lemma hex_EncodeToString_length: "length (hex_EncodeToString xs) = 2 * length xs"
  by (induction xs) simp_all

lemma Sprintf_guid_length: "length u = 16 \<Longrightarrow> length (Sprintf_guid u) = 36"
  by (simp add: Sprintf_guid_def hex_EncodeToString_length)


subsection \<open>Parsing and printing\<close>

text \<open>
  Claim C9. For every valid canonical GUID string \<open>g\<close> (36 characters, hyphens at
  positions 8, 13, 18 and 23, hexadecimal digits of either case elsewhere) parsing succeeds
  and \<open>GUID_String g\<close> is \<open>g\<close> in lower case. A string of another length or
  with another character at a hyphen position fails to parse with \<^verbatim>\<open>invalid guid format\<close>;
  a string with the right layout and a character that is no hexadecimal digit at a digit
  position fails with \<^verbatim>\<open>invalid guid hex char\<close>; the two errors differ.
\<close>

theorem GUID_parse_roundtrip:
  "(spec_valid_guid g \<longrightarrow> snd (GUID_Bytes g) = None \<and> GUID_String g = map spec_lower g)
   \<and> (length g \<noteq> 36 \<or> spec_bad_hyphen g \<longrightarrow> snd (GUID_Bytes g) = Some (Errorf ''invalid guid format'' []))
   \<and> (length g = 36 \<and> \<not> spec_bad_hyphen g \<and> spec_bad_hex g
         \<longrightarrow> snd (GUID_Bytes g) = Some (Errorf ''invalid guid hex char'' []))
   \<and> Errorf ''invalid guid format'' [] \<noteq> Errorf ''invalid guid hex char'' []"
proof (intro conjI impI)
  assume v: "spec_valid_guid g"
  have B: "GUID_Bytes g = (decode_pairs g guid_offsets, None)"
    using GUID_Bytes_layout [OF spec_valid_layout [OF v]] spec_valid_pairs [OF v]
    by (simp add: takeWhile_eq_all_conv list_all_iff guid_offsets_def)
  show "snd (GUID_Bytes g) = None" by (simp add: B)
  show "GUID_String g = map spec_lower g"
    by (simp add: GUID_String_def GUID_Canonical_Sprintf B valid_roundtrip [OF v])
next
  assume "length g \<noteq> 36 \<or> spec_bad_hyphen g"
  then have "\<not> canonical_layout g" by (simp add: bad_layout_iff)
  then show "snd (GUID_Bytes g) = Some (Errorf ''invalid guid format'' [])"
    by (simp add: GUID_Bytes_bad_layout)
next
  assume a: "length g = 36 \<and> \<not> spec_bad_hyphen g \<and> spec_bad_hex g"
  then have "canonical_layout g" using bad_layout_iff [of g] by blast
  moreover have "\<not> list_all (pair_ok g) guid_offsets" using a bad_hex_pairs by blast
  ultimately show "snd (GUID_Bytes g) = Some (Errorf ''invalid guid hex char'' [])"
    by (simp add: GUID_Bytes_layout)
next
  show "Errorf ''invalid guid format'' [] \<noteq> Errorf ''invalid guid hex char'' []" by simp
qed


text \<open>The three cases of C9 at concrete strings.\<close>

theorem GUID_parse_roundtrip_witness:
  "spec_valid_guid ''0bc5D13F-2cba-5d74-951f-3F233fe6c908''
   \<and> GUID_String ''0bc5D13F-2cba-5d74-951f-3F233fe6c908'' = ''0bc5d13f-2cba-5d74-951f-3f233fe6c908''
   \<and> spec_bad_hyphen ''0bc5D13F2-cba-5d74-951f-3F233fe6c908''
   \<and> snd (GUID_Bytes ''0bc5D13F2-cba-5d74-951f-3F233fe6c908'') = Some (Errorf ''invalid guid format'' [])
   \<and> spec_bad_hex ''0bc5D13F-2cba-5d74-951f-3F233fe6c9zz''
   \<and> snd (GUID_Bytes ''0bc5D13F-2cba-5d74-951f-3F233fe6c9zz'') = Some (Errorf ''invalid guid hex char'' [])"
proof -
  have v: "spec_valid_guid ''0bc5D13F-2cba-5d74-951f-3F233fe6c908''" by code_simp
  have h: "spec_bad_hyphen ''0bc5D13F2-cba-5d74-951f-3F233fe6c908''" by code_simp
  have x: "length ''0bc5D13F-2cba-5d74-951f-3F233fe6c9zz'' = 36 \<and> \<not> spec_bad_hyphen ''0bc5D13F-2cba-5d74-951f-3F233fe6c9zz''
     \<and> spec_bad_hex ''0bc5D13F-2cba-5d74-951f-3F233fe6c9zz''" by code_simp
  have l: "map spec_lower ''0bc5D13F-2cba-5d74-951f-3F233fe6c908'' = ''0bc5d13f-2cba-5d74-951f-3f233fe6c908''"
    by code_simp
  show ?thesis
    using v h x l GUID_parse_roundtrip [of "''0bc5D13F-2cba-5d74-951f-3F233fe6c908''"]
      GUID_parse_roundtrip [of "''0bc5D13F2-cba-5d74-951f-3F233fe6c908''"]
      GUID_parse_roundtrip [of "''0bc5D13F-2cba-5d74-951f-3F233fe6c9zz''"]
    by simp
qed


text \<open>
  Claim C10. \<open>GUID_String\<close> returns a string of 36 characters for every input. When
  the layout check fails it returns the all-zero canonical form, and \<open>GUID_Canonical\<close>
  holds the error that \<open>GUID_String\<close> drops. When the layout is right and some pair
  of digits is not hexadecimal it returns the canonical form of the bytes decoded before
  the first such pair, followed by zero bytes, and again drops the error.
\<close>

theorem GUID_String_total:
  "length (GUID_String s) = 36
   \<and> (\<not> canonical_layout s \<longrightarrow>
        GUID_Canonical s = (''00000000-0000-0000-0000-000000000000'', Some (Errorf ''invalid guid format'' []))
        \<and> GUID_String s = ''00000000-0000-0000-0000-000000000000'')
   \<and> (canonical_layout s \<and> \<not> list_all (pair_ok s) guid_offsets \<longrightarrow>
        GUID_Canonical s = (Sprintf_guid (partial_bytes s), Some (Errorf ''invalid guid hex char'' []))
        \<and> GUID_String s = Sprintf_guid (partial_bytes s))"
proof (intro conjI impI)
  show "length (GUID_String s) = 36"
    by (simp add: GUID_String_def GUID_Canonical_Sprintf Sprintf_guid_length GUID_Bytes_length)
next
  assume a: "\<not> canonical_layout s"
  show "GUID_Canonical s = (''00000000-0000-0000-0000-000000000000'', Some (Errorf ''invalid guid format'' []))"
    by (simp only: GUID_Canonical_Sprintf GUID_Bytes_bad_layout [OF a] fst_conv snd_conv Sprintf_guid_zero)
  then show "GUID_String s = ''00000000-0000-0000-0000-000000000000''"
    by (simp only: GUID_String_def fst_conv)
next
  assume a: "canonical_layout s \<and> \<not> list_all (pair_ok s) guid_offsets"
  show c: "GUID_Canonical s = (Sprintf_guid (partial_bytes s), Some (Errorf ''invalid guid hex char'' []))"
    using a by (simp add: GUID_Canonical_Sprintf GUID_Bytes_layout partial_bytes_def)
  show "GUID_String s = Sprintf_guid (partial_bytes s)"
    by (simp only: GUID_String_def c fst_conv)
qed


text \<open>The two failure cases of C10 at concrete strings.\<close>

theorem GUID_String_total_witness:
  "\<not> canonical_layout ''not a guid''
   \<and> GUID_String ''not a guid'' = ''00000000-0000-0000-0000-000000000000''
   \<and> canonical_layout ''0bc5D13F-2cba-5d74-95xf-3F233fe6c908''
   \<and> \<not> list_all (pair_ok ''0bc5D13F-2cba-5d74-95xf-3F233fe6c908'') guid_offsets
   \<and> GUID_Canonical ''0bc5D13F-2cba-5d74-95xf-3F233fe6c908''
        = (''0bc5d13f-2cba-5d74-9500-000000000000'', Some (Errorf ''invalid guid hex char'' []))
   \<and> GUID_String ''0bc5D13F-2cba-5d74-95xf-3F233fe6c908'' = ''0bc5d13f-2cba-5d74-9500-000000000000''"
proof -
  have a: "\<not> canonical_layout ''not a guid''" by code_simp
  have b: "canonical_layout ''0bc5D13F-2cba-5d74-95xf-3F233fe6c908''
     \<and> \<not> list_all (pair_ok ''0bc5D13F-2cba-5d74-95xf-3F233fe6c908'') guid_offsets" by code_simp
  have c: "Sprintf_guid (partial_bytes ''0bc5D13F-2cba-5d74-95xf-3F233fe6c908'') = ''0bc5d13f-2cba-5d74-9500-000000000000''"
    by code_simp
  show ?thesis
    using a b c GUID_String_total [of "''not a guid''"]
      GUID_String_total [of "''0bc5D13F-2cba-5d74-95xf-3F233fe6c908''"]
    by simp
qed

section \<open>Properties of Walk and CalculateChecksum\<close>

subsection \<open>Walk runs the visitor over the visit sequence\<close>

lemma visit_until_append:
  "visit_until fn (xs @ ys) s =
     (case visit_until fn xs s of
        (Some err, s') \<Rightarrow> (Some err, s')
      | (None, s') \<Rightarrow> visit_until fn ys s')"
  by (induction fn xs s rule: visit_until.induct)
     (auto split: prod.splits option.splits)

lemma walk_visit_until:
  "walk fn n parents s = visit_until fn (walk_trace n parents) s"
  "walk_children fn cs parents s = visit_until fn (walk_trace_children cs parents) s"
proof (induction fn n parents s and fn cs parents s rule: walk_walk_children.induct)
  case (1 fn ch da du dm g i nm si so ty ur mi um parents s)
  then show ?case
    by (auto split: prod.splits option.splits)
next
  case (2 fn parents s)
  then show ?case by simp
next
  case (3 fn c cs parents s)
  then show ?case
    by (auto simp: visit_until_append split: prod.splits option.splits)
qed

lemma Walk_visit_until:
  "Walk (Some fn) b s =
     (case visit_until fn (Walk_trace b) s of
        (Some err, s') \<Rightarrow> (swallow_break err, s')
      | (None, s') \<Rightarrow> (None, s'))"
  by (auto simp: Walk_def Walk_trace_def walk_visit_until visit_until_append
           split: prod.splits option.splits)

lemma visit_until_record:
  "visit_until record_visit tr s = (None, s @ tr)"
  by (induction tr arbitrary: s) (auto simp: record_visit_def)

lemma Walk_record: "Walk (Some record_visit) b [] = (None, Walk_trace b)"
  by (simp add: Walk_visit_until visit_until_record)

subsection \<open>The context passed to the visitor\<close>

lemma example_Walk_trace:
  "map (\<lambda>(n, parents). (Name n, parents)) (Walk_trace example_Bookmarks) =
     [(''Bookmarks bar'', []), (''News'', [''News'']), (''Example'', [''News'', ''Example'']),
      (''Other bookmarks'', []), (''Mobile bookmarks'', [])]"
  by (simp add: Walk_trace_def example_Bookmarks_def example_folder_def example_url_def
        NodeTypeFolder_def)

text \<open>
  Claim C6, evaluated. On the example profile the visitor is called for the folder
  News, a child of the bookmark bar, with the context \<open>[''News'']\<close>, and for the
  bookmark Example inside News with \<open>[''News'', ''Example'']\<close>: the context holds
  the visited node's own name and never the name of the root, where the ancestors' names
  are \<open>[''Bookmarks bar'']\<close> and \<open>[''Bookmarks bar'', ''News'']\<close>. The order of
  the visits is the pre-order of the tree.
\<close>

theorem Walk_context_holds_own_name:
  "map (\<lambda>(n, parents). (Name n, parents)) (snd (Walk (Some record_visit) example_Bookmarks [])) =
     [(''Bookmarks bar'', []), (''News'', [''News'']), (''Example'', [''News'', ''Example'']),
      (''Other bookmarks'', []), (''Mobile bookmarks'', [])]
   \<and> map (\<lambda>(n, ancestors). (Name n, ancestors))
         (spec_context_walk (BookmarkBar (Roots example_Bookmarks)) []
            @ spec_context_walk (Other (Roots example_Bookmarks)) []
            @ spec_context_walk (MobileBookmark (Roots example_Bookmarks)) []) =
     [(''Bookmarks bar'', []), (''News'', [''Bookmarks bar'']),
      (''Example'', [''Bookmarks bar'', ''News'']),
      (''Other bookmarks'', []), (''Mobile bookmarks'', [])]"
proof
  show "map (\<lambda>(n, parents). (Name n, parents)) (snd (Walk (Some record_visit) example_Bookmarks [])) =
     [(''Bookmarks bar'', []), (''News'', [''News'']), (''Example'', [''News'', ''Example'']),
      (''Other bookmarks'', []), (''Mobile bookmarks'', [])]"
    by (simp only: Walk_record snd_conv example_Walk_trace)
next
  show "map (\<lambda>(n, ancestors). (Name n, ancestors))
         (spec_context_walk (BookmarkBar (Roots example_Bookmarks)) []
            @ spec_context_walk (Other (Roots example_Bookmarks)) []
            @ spec_context_walk (MobileBookmark (Roots example_Bookmarks)) []) =
     [(''Bookmarks bar'', []), (''News'', [''Bookmarks bar'']),
      (''Example'', [''Bookmarks bar'', ''News'']),
      (''Other bookmarks'', []), (''Mobile bookmarks'', [])]"
    by (simp add: example_Bookmarks_def example_folder_def example_url_def)
qed

subsection \<open>The bytes CalculateChecksum hashes\<close>






subsection \<open>Two digests\<close>










end
